theory Spec2Isabelle
  imports Complex_Main
begin

section \<open>Numbers, errors and the display\<close>

text \<open>
  The script \<^verbatim>\<open>tides.py\<close> computes with Python ints and floats. Ints are modelled by
  \<^typ>\<open>int\<close>, floats by \<^typ>\<open>real\<close>: the rounding of IEEE arithmetic is not part of this
  development. Python's \<^verbatim>\<open>int(x)\<close> on a float truncates toward zero.
\<close>

definition py_int :: "real \<Rightarrow> int" where
  "py_int x = (if 0 \<le> x then \<lfloor>x\<rfloor> else \<lceil>x\<rceil>)"



text \<open>
  \<^verbatim>\<open>inky_display\<close>: only the resolution is read. The canvas \<^verbatim>\<open>img\<close> is created with this
  resolution, so both numbers are pixel counts.
\<close>

record inky_display =
  width :: nat
  height :: nat

datatype colour = BLACK | WHITE | RED | YELLOW | ORANGE | BLUE

text \<open>
  The values read from \<^verbatim>\<open>config.json\<close> and the clock that the drawing code uses:
  \<^verbatim>\<open>tz_offset\<close> (whole hours), \<^verbatim>\<open>timeFormat\<close>, and \<^verbatim>\<open>local_midnight.timestamp()\<close>, the
  Unix time in seconds of the start of the local day.
\<close>

record render_env =
  display :: inky_display
  tz_offset :: int
  timeFormat :: string
  local_midnight :: int

section \<open>Drawing operations\<close>

text \<open>
  The calls on \<^verbatim>\<open>ImageDraw\<close> are recorded as values, in the order the script issues
  them; the rasterisation done by the imaging library is outside the script. The text
  of a label is kept as the value it prints: the hour number, the height that
  \<^verbatim>\<open>f"{value:.1f}'"\<close> formats, and the local hour and minute with the flag of the 12-hour
  format that \<^verbatim>\<open>strftime\<close> turns into a string.
\<close>

datatype label = HourLabel int | HeightLabel real | TimeLabel int int bool

datatype draw_cmd =
    Rectangle int int int int colour
  | Text int int label colour
  | Line int int int int colour nat

text \<open>
  The canvas: the pixels written one by one with \<^verbatim>\<open>putpixel\<close>, and the drawing
  operations applied on top of them afterwards.
\<close>

record canvas =
  pixels :: "nat \<times> nat \<Rightarrow> colour option"
  drawn :: "draw_cmd list"




section \<open>Chart geometry and the coordinate mapping\<close>

definition graph_width :: "inky_display \<Rightarrow> int" where
  "graph_width d = int (width d)"


definition graph_x :: int where
  "graph_x = 0"


definition y_top :: int where
  "y_top = 0"

definition y_bottom :: "inky_display \<Rightarrow> int" where
  "y_bottom d = int (height d)"

text \<open>
  The script has no mapping function of its own: it repeats the expression
  \<^verbatim>\<open>int(graph_x + (progress * graph_width))\<close> for the eight sun events and for the hour
  labels. \<open>xOf\<close> is that expression.
\<close>

definition xOf :: "inky_display \<Rightarrow> real \<Rightarrow> int" where
  "xOf d progress = py_int (real_of_int graph_x + progress * real_of_int (graph_width d))"

text \<open>
  The column of tide sample \<open>i\<close> of \<open>n\<close>:
  \<^verbatim>\<open>int(graph_x + (i * graph_width) // (len(predictions) - 1))\<close>, in integer arithmetic.
\<close>

definition x_of_index :: "inky_display \<Rightarrow> nat \<Rightarrow> nat \<Rightarrow> int" where
  "x_of_index d n i = graph_x + (int i * graph_width d) div (int n - 1)"


section \<open>Sun times and the background bands\<close>

text \<open>
  The four instants that \<^verbatim>\<open>astral.sun.sun\<close> returns and the script reads, as Unix
  timestamps.
\<close>

record astral_sun =
  s_dawn :: real
  s_sunrise :: real
  s_sunset :: real
  s_dusk :: real

record sun_times =
  dawn :: real
  sunrise :: real
  golden_start :: real
  golden_end :: real
  evening_golden_start :: real
  evening_golden_end :: real
  sunset :: real
  dusk :: real

definition calculate_sun_times :: "astral_sun \<Rightarrow> sun_times" where
  "calculate_sun_times s =
     (let golden_start = s_sunrise s;
          golden_end = golden_start + 3600;
          evening_golden_start = s_sunset s - 3600;
          evening_golden_end = s_sunset s
      in \<lparr>dawn = s_dawn s, sunrise = s_sunrise s, golden_start = golden_start,
          golden_end = golden_end, evening_golden_start = evening_golden_start,
          evening_golden_end = evening_golden_end, sunset = s_sunset s, dusk = s_dusk s\<rparr>)"

text \<open>
  \<^verbatim>\<open>(datetime.fromtimestamp(ts, local_tz) - local_midnight).total_seconds() / (24 * 3600)\<close>:
  the fraction of the local day elapsed at the instant \<open>ts\<close>.
\<close>

definition day_progress :: "render_env \<Rightarrow> real \<Rightarrow> real" where
  "day_progress e ts = (ts - real_of_int (local_midnight e)) / (24 * 3600)"

definition background_bands :: "render_env \<Rightarrow> sun_times \<Rightarrow> draw_cmd list" where
  "background_bands e st =
     (let d = display e;
          x_dawn = xOf d (day_progress e (dawn st));
          x_sunrise = xOf d (day_progress e (sunrise st));
          x_golden_end = xOf d (day_progress e (golden_end st));
          x_evening_golden_start = xOf d (day_progress e (evening_golden_start st));
          x_sunset = xOf d (day_progress e (sunset st));
          x_dusk = xOf d (day_progress e (dusk st))
      in [Rectangle graph_x y_top x_dawn (y_bottom d) BLUE,
          Rectangle x_dusk y_top (graph_x + graph_width d) (y_bottom d) BLUE,
          Rectangle x_dawn y_top x_sunrise (y_bottom d) ORANGE,
          Rectangle x_sunset y_top x_dusk (y_bottom d) ORANGE,
          Rectangle x_sunrise y_top x_golden_end (y_bottom d) YELLOW,
          Rectangle x_evening_golden_start y_top x_sunset (y_bottom d) YELLOW,
          Rectangle x_golden_end y_top x_evening_golden_start (y_bottom d) WHITE])"

section \<open>Hour labels\<close>



section \<open>Tide samples\<close>

text \<open>
  One entry of \<^verbatim>\<open>tide_data["predictions"]\<close>: \<open>pred_t\<close> is \<^verbatim>\<open>parse_time_str(p["t"], 0)\<close>, the
  Unix time in seconds of the minute the string names, and \<open>pred_v\<close> is
  \<^verbatim>\<open>float(p["v"])\<close>.
\<close>

record prediction =
  pred_t :: int
  pred_v :: real



text \<open>
  The test of the extrema labelling,
  \<^verbatim>\<open>(value > prev_val and value > next_val) or (value < prev_val and value < next_val)\<close>:
  the first disjunct is a peak, the second a trough.
\<close>

definition is_peak :: "real \<Rightarrow> real \<Rightarrow> real \<Rightarrow> bool" where
  "is_peak prev_val val next_val = (val > prev_val \<and> val > next_val)"

definition is_trough :: "real \<Rightarrow> real \<Rightarrow> real \<Rightarrow> bool" where
  "is_trough prev_val val next_val = (val < prev_val \<and> val < next_val)"









section \<open>The tide step\<close>






section \<open>The moon\<close>

text \<open>
  The two points that one iteration of the loop over \<^verbatim>\<open>range(-radius, radius + 1)\<close>
  appends: the point of the terminator and the point of the left or right edge, both
  in row \<^verbatim>\<open>radius + y_offset\<close>.
\<close>

definition moon_row :: "int \<Rightarrow> real \<Rightarrow> int \<Rightarrow> (real \<times> int) list" where
  "moon_row radius phase i =
     (let phase_angle = phase * 2 * pi;
          y_offset = i;
          width = sqrt (real_of_int (radius ^ 2 - y_offset ^ 2))
      in if 0 \<le> phase \<and> phase < 0.5 then
           (let x_offset = - width * cos phase_angle
            in [(real_of_int radius + x_offset, radius + y_offset), (0, radius + y_offset)])
         else if 0.5 \<le> phase \<and> phase \<le> 1 then
           (let x_offset = width * cos phase_angle
            in [(real_of_int radius + x_offset, radius + y_offset),
                (real_of_int (radius * 2), radius + y_offset)])
         else [])"

text \<open>\<^verbatim>\<open>points\<close> after the loop and the stable sort by the second component.\<close>

definition moon_points :: "int \<Rightarrow> real \<Rightarrow> (real \<times> int) list" where
  "moon_points radius phase = sort_key snd (concat (map (moon_row radius phase) [- radius..radius]))"

datatype moon_cmd =
    Ellipse int int int int colour colour
  | Polygon "(real \<times> int) list" colour

text \<open>
  What \<^verbatim>\<open>draw_moon\<close> draws on the temporary image: the disc (black outline, white
  fill), then the polygon of the dark part when there are points. The circular mask and
  the paste at \<^verbatim>\<open>(x - radius, y - radius)\<close> copy the inside of the disc onto the canvas
  as it is; the parameter \<^verbatim>\<open>color\<close> is never read.
\<close>

definition draw_moon :: "int \<Rightarrow> real \<Rightarrow> moon_cmd list" where
  "draw_moon radius phase =
     (let points = moon_points radius phase
      in Ellipse 0 0 (radius * 2) (radius * 2) BLACK WHITE
         # (if points \<noteq> [] then [Polygon points BLACK] else []))"

definition normalized_phase :: "real \<Rightarrow> real" where
  "normalized_phase moon_phase_today = moon_phase_today / 28.0"

definition moon_radius :: int where
  "moon_radius = 40"

section \<open>Derived notions used by the statements\<close>

text \<open>
  Extrema detection at index \<open>i\<close> of a series: the guard \<^verbatim>\<open>i > 0 and i < len(predictions) - 1\<close>
  and one disjunct of the comparison with the two neighbours.
\<close>

definition peak_at :: "prediction list \<Rightarrow> nat \<Rightarrow> bool" where
  "peak_at predictions i =
     (if 0 < i \<and> int i < int (length predictions) - 1
      then is_peak (pred_v (predictions ! (i - 1))) (pred_v (predictions ! i)) (pred_v (predictions ! (i + 1)))
      else False)"

definition trough_at :: "prediction list \<Rightarrow> nat \<Rightarrow> bool" where
  "trough_at predictions i =
     (if 0 < i \<and> int i < int (length predictions) - 1
      then is_trough (pred_v (predictions ! (i - 1))) (pred_v (predictions ! i)) (pred_v (predictions ! (i + 1)))
      else False)"

text \<open>
  The painting contract as the specification words it: the seven bands in left-to-right
  order, from the start of the day (progress 0) to its end (progress 1).
\<close>

definition spec_bands_left_to_right :: "render_env \<Rightarrow> sun_times \<Rightarrow> draw_cmd list" where
  "spec_bands_left_to_right e st =
     (let d = display e;
          x = (\<lambda>ts. xOf d (day_progress e ts))
      in [Rectangle (xOf d 0) y_top (x (dawn st)) (y_bottom d) BLUE,
          Rectangle (x (dawn st)) y_top (x (sunrise st)) (y_bottom d) ORANGE,
          Rectangle (x (sunrise st)) y_top (x (golden_end st)) (y_bottom d) YELLOW,
          Rectangle (x (golden_end st)) y_top (x (evening_golden_start st)) (y_bottom d) WHITE,
          Rectangle (x (evening_golden_start st)) y_top (x (sunset st)) (y_bottom d) YELLOW,
          Rectangle (x (sunset st)) y_top (x (dusk st)) (y_bottom d) ORANGE,
          Rectangle (x (dusk st)) y_top (xOf d 1) (y_bottom d) BLUE])"


section \<open>Example inputs\<close>

text \<open>
  A 640 by 400 display, a station eight hours west of Greenwich on the first day of the
  Unix epoch (local midnight is 08:00 UTC), and a day with dawn at 05:00, sunrise at
  06:30, sunset at 18:00 and dusk at 19:30 local time.
\<close>

definition example_display :: inky_display where
  "example_display = \<lparr>width = 640, height = 400\<rparr>"

definition example_env :: render_env where
  "example_env = \<lparr>display = example_display, tz_offset = - 8, timeFormat = ''24'',
                   local_midnight = 28800\<rparr>"

definition example_sun :: astral_sun where
  "example_sun = \<lparr>s_dawn = 46800, s_sunrise = 52200, s_sunset = 93600, s_dusk = 99000\<rparr>"

text \<open>
  The series of the specification's scenario, one sample every four hours from local
  midnight, and a flat series of two samples a quarter of an hour apart.
\<close>

definition example_series :: "prediction list" where
  "example_series =
     [\<lparr>pred_t = 28800, pred_v = 1\<rparr>, \<lparr>pred_t = 43200, pred_v = 2\<rparr>,
      \<lparr>pred_t = 57600, pred_v = 3 / 2\<rparr>, \<lparr>pred_t = 72000, pred_v = 1 / 2\<rparr>,
      \<lparr>pred_t = 86400, pred_v = 1\<rparr>]"


section \<open>Truncation\<close>

lemma py_int_mono: "x \<le> y \<Longrightarrow> py_int x \<le> py_int y"
  unfolding py_int_def
  by (auto intro: floor_mono ceiling_mono) (smt (verit) ceiling_le_zero zero_le_floor)+

lemma py_int_of_int: "py_int (real_of_int k) = k"
  by (simp add: py_int_def)


section \<open>The coordinate mapping\<close>

lemma xOf_mono: "p \<le> q \<Longrightarrow> xOf d p \<le> xOf d q"
  by (auto simp: xOf_def graph_width_def intro!: py_int_mono mult_right_mono)

lemma xOf_0: "xOf d 0 = graph_x"
  by (simp add: xOf_def graph_x_def py_int_def)

lemma xOf_1: "xOf d 1 = graph_x + graph_width d"
  by (simp add: xOf_def graph_x_def graph_width_def py_int_def)

lemma x_of_index_mono:
  assumes "2 \<le> n" and "i \<le> j"
  shows "x_of_index d n i \<le> x_of_index d n j"
proof -
  have "int i * graph_width d \<le> int j * graph_width d"
    using assms(2) by (simp add: graph_width_def mult_right_mono)
  moreover have "0 < int n - 1"
    using assms(1) by simp
  ultimately show ?thesis
    unfolding x_of_index_def by (simp add: zdiv_mono1)
qed

lemma x_of_index_ends:
  assumes "2 \<le> n"
  shows "x_of_index d n 0 = graph_x" and "x_of_index d n (n - 1) = graph_x + graph_width d"
proof -
  show "x_of_index d n 0 = graph_x"
    by (simp add: x_of_index_def)
  have "int (n - 1) = int n - 1" and "int n - 1 \<noteq> 0"
    using assms by simp_all
  then show "x_of_index d n (n - 1) = graph_x + graph_width d"
    by (simp add: x_of_index_def)
qed

text \<open>
  Claim C8. The horizontal mapping is monotonic non-decreasing in the progress, maps
  progress 0 to the left edge \<open>graph_x\<close> and progress 1 to \<open>graph_x + graph_width\<close>. The
  same holds for the index-based column of the tide samples: it does not decrease with
  the index, the first sample sits on the left edge and the last one on the right edge.
\<close>

theorem xOf_monotone_endpoints:
  "(p \<le> q \<longrightarrow> xOf d p \<le> xOf d q)
   \<and> xOf d 0 = graph_x
   \<and> xOf d 1 = graph_x + graph_width d
   \<and> (2 \<le> n \<and> i \<le> j \<longrightarrow> x_of_index d n i \<le> x_of_index d n j)
   \<and> (2 \<le> n \<longrightarrow> x_of_index d n 0 = graph_x \<and> x_of_index d n (n - 1) = graph_x + graph_width d)"
  using xOf_mono xOf_0 xOf_1 x_of_index_mono x_of_index_ends by blast

theorem xOf_monotone_endpoints_witness:
  "(1 / 24 :: real) \<le> 13 / 24
   \<and> xOf \<lparr>width = 640, height = 400\<rparr> (1 / 24) \<le> xOf \<lparr>width = 640, height = 400\<rparr> (13 / 24)
   \<and> xOf \<lparr>width = 640, height = 400\<rparr> 0 = graph_x
   \<and> xOf \<lparr>width = 640, height = 400\<rparr> 1 = graph_x + graph_width \<lparr>width = 640, height = 400\<rparr>
   \<and> (2 :: nat) \<le> 96 \<and> (10 :: nat) \<le> 95
   \<and> x_of_index \<lparr>width = 640, height = 400\<rparr> 96 10 \<le> x_of_index \<lparr>width = 640, height = 400\<rparr> 96 95
   \<and> x_of_index \<lparr>width = 640, height = 400\<rparr> 96 0 = graph_x
   \<and> x_of_index \<lparr>width = 640, height = 400\<rparr> 96 (96 - 1) = graph_x + graph_width \<lparr>width = 640, height = 400\<rparr>"
  using xOf_monotone_endpoints [of "1 / 24" "13 / 24" "\<lparr>width = 640, height = 400\<rparr>" 96 10 95]
  by simp








section \<open>Vertical scaling\<close>









section \<open>The skipped tide step\<close>








section \<open>The moon outside the phase range\<close>

lemma moon_row_out_of_range: "phase < 0 \<or> 1 < phase \<Longrightarrow> moon_row radius phase i = []"
  by (auto simp: moon_row_def Let_def)

lemma moon_points_out_of_range:
  assumes "phase < 0 \<or> 1 < phase"
  shows "moon_points radius phase = []"
proof -
  have "concat (map (moon_row radius phase) [- radius..radius]) = []"
    by (simp add: moon_row_out_of_range [OF assms])
  then show ?thesis by (simp only: moon_points_def sort_key_simps)
qed

text \<open>
  Claim C10. For a phase below 0 or above 1 and a radius of at least 1, no iteration of
  the loop appends a point (both guards fail), \<open>points\<close> is empty, no polygon is drawn and
  the disc is the white ellipse with its black outline alone. Dividing the phase of the
  source by 28 gives such a value whenever that phase exceeds 28.
\<close>

theorem moon_out_of_range_light:
  assumes "1 \<le> radius" and "phase < 0 \<or> 1 < phase"
  shows "list_all (\<lambda>i. moon_row radius phase i = []) [- radius..radius]
       \<and> moon_points radius phase = []
       \<and> draw_moon radius phase = [Ellipse 0 0 (radius * 2) (radius * 2) BLACK WHITE]
       \<and> (28 < moon_phase_today \<longrightarrow> 1 < normalized_phase moon_phase_today)"
  using moon_row_out_of_range [OF assms(2)] moon_points_out_of_range [OF assms(2)]
  by (simp add: draw_moon_def list_all_iff normalized_phase_def)

theorem moon_out_of_range_light_witness:
  "(1::int) \<le> moon_radius \<and> 1 < normalized_phase 29 \<and> (28::real) < 29
   \<and> moon_points moon_radius (normalized_phase 29) = []
   \<and> draw_moon moon_radius (normalized_phase 29) = [Ellipse 0 0 80 80 BLACK WHITE]"
proof -
  have r: "(1::int) \<le> moon_radius" by (simp add: moon_radius_def)
  have p: "normalized_phase 29 < 0 \<or> 1 < normalized_phase 29" by (simp add: normalized_phase_def)
  show ?thesis
    using r p moon_out_of_range_light [OF r p, of 29] by (simp add: moon_radius_def)
qed

section \<open>The plotting loop\<close>






section \<open>Reversal of a series\<close>

lemma extremum_at_outside:
  assumes "\<not> (0 < i \<and> int i < int (length predictions) - 1)"
  shows "\<not> peak_at predictions i" and "\<not> trough_at predictions i"
  using assms by (auto simp: peak_at_def trough_at_def)

lemma extremum_at_inside:
  assumes "0 < i \<and> int i < int (length predictions) - 1"
  shows "peak_at predictions i
           = is_peak (pred_v (predictions ! (i - 1))) (pred_v (predictions ! i)) (pred_v (predictions ! (i + 1)))"
    and "trough_at predictions i
           = is_trough (pred_v (predictions ! (i - 1))) (pred_v (predictions ! i)) (pred_v (predictions ! (i + 1)))"
  using assms by (auto simp: peak_at_def trough_at_def)

lemma is_peak_swap: "is_peak a b c = is_peak c b a"
  by (auto simp: is_peak_def)

lemma is_trough_swap: "is_trough a b c = is_trough c b a"
  by (auto simp: is_trough_def)

text \<open>
  Claim C9. Reversing a series maps the sample at index \<open>i\<close> to index \<open>n - 1 - i\<close>, and
  detection on the reversed series flags that same sample in the same way: a peak stays
  a peak, a trough stays a trough, and a sample that is neither stays neither.
\<close>

theorem extrema_reversal:
  assumes "i < length predictions"
  shows "rev predictions ! (length predictions - 1 - i) = predictions ! i
       \<and> peak_at (rev predictions) (length predictions - 1 - i) = peak_at predictions i
       \<and> trough_at (rev predictions) (length predictions - 1 - i) = trough_at predictions i"
proof -
  let ?n = "length predictions"
  let ?j = "?n - 1 - i"
  have a: "rev predictions ! ?j = predictions ! i"
    using assms by (simp add: rev_nth)
  show ?thesis
  proof (cases "0 < i \<and> i < ?n - 1")
    case True
    have "?j - 1 < ?n" and "?n - Suc (?j - 1) = i + 1"
      using True by arith+
    then have b: "rev predictions ! (?j - 1) = predictions ! (i + 1)"
      by (simp only: rev_nth)
    have "?j + 1 < ?n" and "?n - Suc (?j + 1) = i - 1"
      using True by arith+
    then have c: "rev predictions ! (?j + 1) = predictions ! (i - 1)"
      by (simp only: rev_nth)
    have g: "0 < ?j \<and> int ?j < int (length (rev predictions)) - 1"
      using True by auto
    have g': "0 < i \<and> int i < int ?n - 1"
      using True by auto
    have "peak_at (rev predictions) ?j = peak_at predictions i"
      unfolding extremum_at_inside(1) [OF g] extremum_at_inside(1) [OF g'] a b c
      by (rule is_peak_swap)
    moreover have "trough_at (rev predictions) ?j = trough_at predictions i"
      unfolding extremum_at_inside(2) [OF g] extremum_at_inside(2) [OF g'] a b c
      by (rule is_trough_swap)
    ultimately show ?thesis using a by blast
  next
    case False
    have g: "\<not> (0 < ?j \<and> int ?j < int (length (rev predictions)) - 1)"
      using False assms by auto
    have g': "\<not> (0 < i \<and> int i < int ?n - 1)"
      using False by auto
    show ?thesis
      using a extremum_at_outside [OF g] extremum_at_outside [OF g'] by blast
  qed
qed

theorem extrema_reversal_witness:
  "(1::nat) < length example_series
   \<and> rev example_series ! (length example_series - 1 - 1) = example_series ! 1
   \<and> peak_at example_series 1 \<and> peak_at (rev example_series) 3
   \<and> \<not> trough_at example_series 1 \<and> \<not> trough_at (rev example_series) 3"
proof -
  have l: "(1::nat) < length example_series" by (simp add: example_series_def)
  have p: "peak_at example_series 1" "\<not> trough_at example_series 1"
    by (simp_all add: peak_at_def trough_at_def is_peak_def is_trough_def example_series_def)
  have "length example_series - 1 - 1 = 3" by (simp add: example_series_def)
  then show ?thesis
    using l p extrema_reversal [OF l] by simp
qed





section \<open>The background bands\<close>

text \<open>
  Claim C2, as stated: the seven bands are painted in left-to-right order. They are
  not: on the example day the list of rectangles the script paints differs from the
  left-to-right list (its second rectangle is the blue band from dusk to the end of the
  day, not the orange band from dawn to sunrise).
\<close>

theorem bands_left_to_right_counterexample:
  "background_bands example_env (calculate_sun_times example_sun)
     \<noteq> spec_bands_left_to_right example_env (calculate_sun_times example_sun)"
  by (simp add: background_bands_def spec_bands_left_to_right_def Let_def)

text \<open>
  Claim C2, amended: the script paints exactly the seven bands of the contract, each a
  filled rectangle from row \<open>y_top = 0\<close> to row \<open>y_bottom\<close> (the height of the display),
  with the same boundary columns and colours, but grouped by colour: the two blue night
  bands first (positions 0 and 6 of the left-to-right list), then the two orange
  twilight bands (1 and 5), then the two yellow golden-hour bands (2 and 4), and the
  white daylight band (3) last.
\<close>

theorem bands_grouped_by_colour:
  "background_bands e st = map ((!) (spec_bands_left_to_right e st)) [0, 6, 1, 5, 2, 4, 3]"
  by (simp add: background_bands_def spec_bands_left_to_right_def Let_def xOf_0 xOf_1)

section \<open>The moon at new and full moon\<close>

lemma moon_row_snd: "p \<in> set (moon_row radius phase i) \<Longrightarrow> snd p = radius + i"
  by (auto simp: moon_row_def Let_def split: if_splits)

lemma rows_sorted:
  assumes "\<And>i p. p \<in> set (row i) \<Longrightarrow> snd p = c + i"
  shows "sorted (map snd (concat (map row [a..b])))"
proof (induction a b rule: upto.induct)
  case (1 a b)
  show ?case
  proof (cases "a \<le> b")
    case True
    have "\<forall>x \<in> set (row a). \<forall>y \<in> set (concat (map row [a + 1..b])). snd x \<le> snd y"
      using assms by auto
    moreover have "sorted (map snd (row a))"
    proof -
      have "\<forall>y \<in> set (map snd (row a)). y = c + a"
        using assms by auto
      then have "replicate (length (map snd (row a))) (c + a) = map snd (row a)"
        by (rule replicate_length_same)
      then show ?thesis
        by (metis sorted_replicate)
    qed
    ultimately show ?thesis
      using 1 True by (simp add: upto_rec1 [of a b] sorted_append)
  next
    case False
    then show ?thesis by simp
  qed
qed

lemma moon_points_unsorted:
  "moon_points radius phase = concat (map (moon_row radius phase) [- radius..radius])"
  unfolding moon_points_def
  by (intro sort_key_id_if_sorted rows_sorted [where c = radius]) (rule moon_row_snd)

lemma moon_row_new:
  "moon_row radius 0 i
     = [(real_of_int radius - sqrt (real_of_int (radius ^ 2 - i ^ 2)), radius + i), (0, radius + i)]"
  by (simp add: moon_row_def)

lemma moon_row_full:
  "moon_row radius (1 / 2) i
     = [(real_of_int radius - sqrt (real_of_int (radius ^ 2 - i ^ 2)), radius + i),
        (real_of_int (radius * 2), radius + i)]"
  by (simp add: moon_row_def)

lemma moon_row_end:
  "moon_row radius 1 i
     = [(real_of_int radius + sqrt (real_of_int (radius ^ 2 - i ^ 2)), radius + i),
        (real_of_int (radius * 2), radius + i)]"
  by (simp add: moon_row_def)


lemma half_width_le:
  assumes "i \<in> set [- radius..radius]"
  shows "sqrt (real_of_int (radius ^ 2 - i ^ 2)) \<le> real_of_int radius"
proof -
  have r: "0 \<le> radius" using assms by auto
  have "real_of_int (radius ^ 2 - i ^ 2) \<le> (real_of_int radius) ^ 2"
    by simp
  then have "sqrt (real_of_int (radius ^ 2 - i ^ 2)) \<le> sqrt ((real_of_int radius) ^ 2)"
    by (rule real_sqrt_le_mono)
  then show ?thesis using r by simp
qed

lemma half_width_nonneg:
  assumes "i \<in> set [- radius..radius]"
  shows "0 \<le> sqrt (real_of_int (radius ^ 2 - i ^ 2))"
proof -
  have "\<bar>i\<bar> \<le> \<bar>radius\<bar>" using assms by auto
  then have "i ^ 2 \<le> radius ^ 2" by (simp only: abs_le_square_iff)
  then have "0 \<le> radius ^ 2 - i ^ 2" by simp
  then show ?thesis by (simp only: real_sqrt_ge_0_iff of_int_0_le_iff)
qed

text \<open>
  Claim C1 asks for a dark polygon that covers the whole disc at phase 0 and phase 1,
  and for an empty one at phase 0.5. The script does the opposite, for every radius of
  at least 1. At phase 0 the vertices are, row by row, the point of the left arc of the
  circle and the point of the left edge of the image, so every vertex lies in the left
  half \<open>x \<le> radius\<close> and the right half of the disc is never inside the polygon; at
  phase 1 they are the point of the right arc and the point of the right edge, all in
  the right half. At phase 0.5 the list of points is not empty, the polygon is drawn,
  and its vertices are the point of the left arc and the point of the right edge of
  every row: in the middle row the two ends of the diameter, \<open>(0, radius)\<close> and
  \<open>(2 * radius, radius)\<close>.
\<close>

theorem moon_phase_inverted:
  assumes "1 \<le> radius"
  shows "moon_points radius 0
           = concat (map (\<lambda>i. [(real_of_int radius - sqrt (real_of_int (radius ^ 2 - i ^ 2)), radius + i),
                                 (0, radius + i)]) [- radius..radius])
       \<and> moon_points radius 1
           = concat (map (\<lambda>i. [(real_of_int radius + sqrt (real_of_int (radius ^ 2 - i ^ 2)), radius + i),
                                 (real_of_int (radius * 2), radius + i)]) [- radius..radius])
       \<and> moon_points radius (1 / 2)
           = concat (map (\<lambda>i. [(real_of_int radius - sqrt (real_of_int (radius ^ 2 - i ^ 2)), radius + i),
                                 (real_of_int (radius * 2), radius + i)]) [- radius..radius])
       \<and> list_all (\<lambda>p. fst p \<le> real_of_int radius) (moon_points radius 0)
       \<and> list_all (\<lambda>p. real_of_int radius \<le> fst p) (moon_points radius 1)
       \<and> (0, radius) \<in> set (moon_points radius (1 / 2))
       \<and> (real_of_int (radius * 2), radius) \<in> set (moon_points radius (1 / 2))
       \<and> draw_moon radius (1 / 2)
           = [Ellipse 0 0 (radius * 2) (radius * 2) BLACK WHITE, Polygon (moon_points radius (1 / 2)) BLACK]"
proof -
  have new: "moon_points radius 0
           = concat (map (\<lambda>i. [(real_of_int radius - sqrt (real_of_int (radius ^ 2 - i ^ 2)), radius + i),
                                 (0, radius + i)]) [- radius..radius])"
    unfolding moon_points_unsorted by (rule arg_cong [where f = concat], rule map_cong [OF refl]) (rule moon_row_new)
  have last: "moon_points radius 1
           = concat (map (\<lambda>i. [(real_of_int radius + sqrt (real_of_int (radius ^ 2 - i ^ 2)), radius + i),
                                 (real_of_int (radius * 2), radius + i)]) [- radius..radius])"
    unfolding moon_points_unsorted by (rule arg_cong [where f = concat], rule map_cong [OF refl]) (rule moon_row_end)
  have full: "moon_points radius (1 / 2)
           = concat (map (\<lambda>i. [(real_of_int radius - sqrt (real_of_int (radius ^ 2 - i ^ 2)), radius + i),
                                 (real_of_int (radius * 2), radius + i)]) [- radius..radius])"
    unfolding moon_points_unsorted by (rule arg_cong [where f = concat], rule map_cong [OF refl]) (rule moon_row_full)
  have left: "list_all (\<lambda>p. fst p \<le> real_of_int radius) (moon_points radius 0)"
    unfolding new list_all_iff using half_width_nonneg [of _ radius] assms by auto
  have right: "list_all (\<lambda>p. real_of_int radius \<le> fst p) (moon_points radius 1)"
    unfolding last list_all_iff using half_width_nonneg [of _ radius] assms by auto
  have zero: "0 \<in> {- radius..radius}"
    using assms by simp
  have w0: "sqrt (real_of_int (radius ^ 2 - 0 ^ 2)) = real_of_int radius"
    using assms by simp
  have "set (moon_row radius (1 / 2) 0) \<subseteq> set (moon_points radius (1 / 2))"
    unfolding moon_points_unsorted using zero by (simp only: set_concat set_map set_upto) blast
  then have mem: "(0, radius) \<in> set (moon_points radius (1 / 2))"
      "(real_of_int (radius * 2), radius) \<in> set (moon_points radius (1 / 2))"
    unfolding moon_row_full w0 by simp_all
  then have "moon_points radius (1 / 2) \<noteq> []"
    by auto
  then have drawn: "draw_moon radius (1 / 2)
           = [Ellipse 0 0 (radius * 2) (radius * 2) BLACK WHITE, Polygon (moon_points radius (1 / 2)) BLACK]"
    by (simp add: draw_moon_def Let_def)
  show ?thesis
    using new last full left right mem drawn by blast
qed

theorem moon_phase_inverted_witness:
  "(1::int) \<le> moon_radius
   \<and> list_all (\<lambda>p. fst p \<le> 40) (moon_points moon_radius 0)
   \<and> list_all (\<lambda>p. 40 \<le> fst p) (moon_points moon_radius 1)
   \<and> (0, 40) \<in> set (moon_points moon_radius (1 / 2))
   \<and> (80, 40) \<in> set (moon_points moon_radius (1 / 2))
   \<and> draw_moon moon_radius (1 / 2)
       = [Ellipse 0 0 80 80 BLACK WHITE, Polygon (moon_points moon_radius (1 / 2)) BLACK]"
proof -
  have r: "(1::int) \<le> moon_radius" by (simp add: moon_radius_def)
  have v: "real_of_int moon_radius = 40" "moon_radius * 2 = 80" "real_of_int (moon_radius * 2) = 80"
    by (simp_all add: moon_radius_def)
  note t = moon_phase_inverted [OF r]
  have "list_all (\<lambda>p. fst p \<le> real_of_int moon_radius) (moon_points moon_radius 0)"
    and "list_all (\<lambda>p. real_of_int moon_radius \<le> fst p) (moon_points moon_radius 1)"
    and "(0, moon_radius) \<in> set (moon_points moon_radius (1 / 2))"
    and "(real_of_int (moon_radius * 2), moon_radius) \<in> set (moon_points moon_radius (1 / 2))"
    and "draw_moon moon_radius (1 / 2)
           = [Ellipse 0 0 (moon_radius * 2) (moon_radius * 2) BLACK WHITE,
              Polygon (moon_points moon_radius (1 / 2)) BLACK]"
    using t by blast+
  then show ?thesis
    unfolding v using r by (simp add: moon_radius_def)
qed

end
